theory Spec2Isabelle
  imports Main
begin

section \<open>Python strings\<close>

text \<open>
  Texts read from the page are Python \<open>str\<close> values. They are modelled as
  \<open>string\<close>, one \<open>char\<close> per code point, which covers the code points
  below 256 (Latin-1). \<open>py_isspace\<close> lists the code points below 256 for which
  \<open>str.isspace\<close> holds, \<open>strip\<close> is \<open>str.strip()\<close> without
  argument and \<open>lower\<close> is \<open>str.lower()\<close>.
\<close>

definition py_isspace :: "char \<Rightarrow> bool" where
  "py_isspace c \<longleftrightarrow>
     c \<in> set [CHR 0x09, CHR 0x0A, CHR 0x0B, CHR 0x0C, CHR 0x0D, CHR 0x1C,
              CHR 0x1D, CHR 0x1E, CHR 0x1F, CHR 0x20, CHR 0x85, CHR 0xA0]"

definition strip :: "string \<Rightarrow> string" where
  "strip s = rev (dropWhile py_isspace (rev (dropWhile py_isspace s)))"

definition uppercase :: string where
  "uppercase = ''ABCDEFGHIJKLMNOPQRSTUVWXYZ'' @
     [CHR 0xC0, CHR 0xC1, CHR 0xC2, CHR 0xC3, CHR 0xC4, CHR 0xC5, CHR 0xC6, CHR 0xC7,
      CHR 0xC8, CHR 0xC9, CHR 0xCA, CHR 0xCB, CHR 0xCC, CHR 0xCD, CHR 0xCE, CHR 0xCF,
      CHR 0xD0, CHR 0xD1, CHR 0xD2, CHR 0xD3, CHR 0xD4, CHR 0xD5, CHR 0xD6,
      CHR 0xD8, CHR 0xD9, CHR 0xDA, CHR 0xDB, CHR 0xDC, CHR 0xDD, CHR 0xDE]"

definition lowercase :: string where
  "lowercase = ''abcdefghijklmnopqrstuvwxyz'' @
     [CHR 0xE0, CHR 0xE1, CHR 0xE2, CHR 0xE3, CHR 0xE4, CHR 0xE5, CHR 0xE6, CHR 0xE7,
      CHR 0xE8, CHR 0xE9, CHR 0xEA, CHR 0xEB, CHR 0xEC, CHR 0xED, CHR 0xEE, CHR 0xEF,
      CHR 0xF0, CHR 0xF1, CHR 0xF2, CHR 0xF3, CHR 0xF4, CHR 0xF5, CHR 0xF6,
      CHR 0xF8, CHR 0xF9, CHR 0xFA, CHR 0xFB, CHR 0xFC, CHR 0xFD, CHR 0xFE]"

definition lower_char :: "char \<Rightarrow> char" where
  "lower_char c = (case map_of (zip uppercase lowercase) c of None \<Rightarrow> c | Some l \<Rightarrow> l)"

definition lower :: "string \<Rightarrow> string" where
  "lower s = map lower_char s"

text \<open>\<open>startswith s p\<close> is \<open>s.startswith(p)\<close>; \<open>contains s p\<close> is \<open>p in s\<close>.\<close>

fun startswith :: "string \<Rightarrow> string \<Rightarrow> bool" where
  "startswith s [] = True"
| "startswith [] (p # ps) = False"
| "startswith (c # cs) (p # ps) = (c = p \<and> startswith cs ps)"

fun contains :: "string \<Rightarrow> string \<Rightarrow> bool" where
  "contains [] p = (p = [])"
| "contains (c # cs) p = (startswith (c # cs) p \<or> contains cs p)"

section \<open>The dialog handler\<close>

text \<open>
  \<open>handle_dialog\<close> (scraper.py, lines 13-34). A dialog carries its type and its
  message. The handler calls \<open>dialog.accept()\<close> or \<open>dialog.dismiss()\<close>; the
  model returns which of the two it calls. An error raised by that call is caught and
  logged by the handler itself and changes nothing else.
\<close>

record dialog =
  dialog_type :: string
  message :: string

datatype dialog_action = Accept | Dismiss

definition handle_dialog :: "dialog \<Rightarrow> dialog_action" where
  "handle_dialog d =
     (if dialog_type d = ''alert'' \<or> dialog_type d = ''confirm'' \<or> dialog_type d = ''prompt''
      then Accept
      else if dialog_type d = ''beforeunload'' then Accept
      else if contains (lower (message d)) ''location'' then Accept
      else Dismiss)"

section \<open>Field resolution on the detail page\<close>

text \<open>
  Every await on the page is an observation of a browser the program does not control.
  The observations are inputs of the model. The \<open>text_content()\<close> of an element is
  a string.

  Time is counted in milliseconds. \<open>asyncio.sleep(0.5)\<close> takes at least 500 ms, so at
  the \<open>k\<close>-th test of a polling loop (after \<open>k\<close> sleeps) the clock shows
  \<open>500 * k\<close> plus whatever the reads and the scheduler added, the \<open>lag\<close>.
\<close>

datatype error = AutomationError | IndexError | ValueError

definition elapsed :: "(nat \<Rightarrow> nat) \<Rightarrow> nat \<Rightarrow> nat" where
  "elapsed lag k = 500 * k + lag k"

text \<open>
  A single \<open>strong\<close> element read through a strict locator (Project Name, RERA Regd.
  No.): \<open>is_visible\<close> tells whether \<open>wait_for(state="visible", timeout=30000)\<close>
  returns, \<open>text_at i\<close> is what the \<open>i\<close>-th call of \<open>text_content()\<close> returns
  (\<open>None\<close> when it raises a Playwright error).
\<close>

record text_probe =
  is_visible :: bool
  text_at :: "nat \<Rightarrow> string option"
  lag_at :: "nat \<Rightarrow> nat"

text \<open>
  Lines 184-187 (and 194-197): poll while the text is the placeholder and less than 60
  seconds have passed, then read the text once more and take that. The result is the
  text and the number of sleeps.
\<close>

function wait_text :: "(nat \<Rightarrow> string option) \<Rightarrow> (nat \<Rightarrow> nat) \<Rightarrow> nat \<Rightarrow> error + string \<times> nat" where
  "wait_text shown lag k =
     (case shown k of
        None \<Rightarrow> Inl AutomationError
      | Some t \<Rightarrow>
          if t = ''--'' \<and> elapsed lag k < 60000 then wait_text shown lag (Suc k)
          else (case shown (Suc k) of
                  None \<Rightarrow> Inl AutomationError
                | Some t' \<Rightarrow> Inr (t', k)))"
  by pat_completeness auto
termination
  by (relation "measure (\<lambda>(shown, lag, k). 120 - k)") (auto simp: elapsed_def)

declare wait_text.simps [simp del]

definition resolve_text :: "text_probe \<Rightarrow> error + string" where
  "resolve_text p =
     (if \<not> is_visible p then Inl AutomationError
      else case wait_text (text_at p) (lag_at p) 0 of
             Inl e \<Rightarrow> Inl e
           | Inr (t, sleeps) \<Rightarrow> Inr t)"

text \<open>
  The Promoter Details card. A locator below the card body is observed once per polling
  cycle: \<open>company_name k\<close> lists the texts of the elements the locator matches in cycle
  \<open>k\<close>, in document order, so \<open>count()\<close> is its length and
  \<open>first.text_content()\<close> its head. The reads of one cycle see the same page.
\<close>

record promoter_card =
  company_name :: "nat \<Rightarrow> string list"
  propietory_name :: "nat \<Rightarrow> string list"
  promoter_lag :: "nat \<Rightarrow> nat"
  registered_address :: "nat \<Rightarrow> string list"
  permanent_address :: "nat \<Rightarrow> string list"
  address_lag :: "nat \<Rightarrow> nat"
  gst_no :: "nat \<Rightarrow> string list"
  gst_lag :: "nat \<Rightarrow> nat"

text \<open>
  \<open>offers els\<close> is the test of lines 234-236:
  \<open>count() > 0\<close>, and the first text is non-empty and, stripped, not the placeholder.
\<close>

definition offers :: "string list \<Rightarrow> bool" where
  "offers els \<longleftrightarrow> els \<noteq> [] \<and> hd els \<noteq> [] \<and> strip (hd els) \<noteq> ''--''"

text \<open>
  Lines 233-251 (Promoter Name) and 260-278 (Address): the same loop over two sources.
  The variable the loop assigns is still \<open>None\<close> whenever the clock test is reached, so
  the timeout always yields the placeholder.
\<close>

function poll_two_sources ::
  "(nat \<Rightarrow> string list) \<Rightarrow> (nat \<Rightarrow> string list) \<Rightarrow> (nat \<Rightarrow> nat) \<Rightarrow> nat \<Rightarrow> string \<times> nat" where
  "poll_two_sources primary secondary lag k =
     (if offers (primary k) then (hd (primary k), k)
      else if offers (secondary k) then (hd (secondary k), k)
      else if primary k = [] \<and> secondary k = [] then (''--'', k)
      else if 40000 < elapsed lag k then (''--'', k)
      else poll_two_sources primary secondary lag (Suc k))"
  by pat_completeness auto
termination
  by (relation "measure (\<lambda>(primary, secondary, lag, k). 81 - k)") (auto simp: elapsed_def)

declare poll_two_sources.simps [simp del]

text \<open>
  \<open>gst_offers els\<close> is the test of lines 287-289: \<open>count() > 0\<close>, and the first text
  is non-empty and not empty once stripped.
\<close>

definition gst_offers :: "string list \<Rightarrow> bool" where
  "gst_offers els \<longleftrightarrow> els \<noteq> [] \<and> hd els \<noteq> [] \<and> strip (hd els) \<noteq> []"

text \<open>Lines 284-294: the GST No. loop, which starts from the placeholder.\<close>

function poll_gst :: "(nat \<Rightarrow> string list) \<Rightarrow> (nat \<Rightarrow> nat) \<Rightarrow> nat \<Rightarrow> string \<times> nat" where
  "poll_gst gst lag k =
     (if gst_offers (gst k) then (hd (gst k), k)
      else if 40000 < elapsed lag k then (''--'', k)
      else poll_gst gst lag (Suc k))"
  by pat_completeness auto
termination
  by (relation "measure (\<lambda>(gst, lag, k). 81 - k)") (auto simp: elapsed_def)

declare poll_gst.simps [simp del]

section \<open>Scraping one detail page\<close>

text \<open>
  A detail page as the run observes it: the two fields of the default view, and the
  Promoter Details card (\<open>None\<close> when clicking the tab, waiting for the card body,
  reading its HTML or saving the snapshot raises).
\<close>

record detail_page =
  project_name_strong :: text_probe
  rera_regd_no_strong :: text_probe
  promoter_details :: "promoter_card option"

text \<open>
  \<open>current_project_details\<close> is a Python dict. Its keys keep their insertion order,
  which fixes the columns of the output, so it is an association list and
  \<open>dict_set\<close> is the assignment \<open>d[k] = v\<close>: an existing key keeps its place.
\<close>

type_synonym details = "(string \<times> string) list"

fun dict_set :: "string \<Rightarrow> string \<Rightarrow> details \<Rightarrow> details" where
  "dict_set k v [] = [(k, v)]"
| "dict_set k v ((k', v') # d) =
     (if k' = k then (k, v) # d else (k', v') # dict_set k v d)"

text \<open>
  Lines 177-296. The result is \<open>current_project_details\<close> with the local variables
  \<open>promoter_name_text\<close> and \<open>address_text\<close>.
\<close>

definition scrape_detail :: "detail_page \<Rightarrow> error + details \<times> string \<times> string" where
  "scrape_detail pg =
     (case resolve_text (project_name_strong pg) of
        Inl e \<Rightarrow> Inl e
      | Inr project_name_text \<Rightarrow>
     (case resolve_text (rera_regd_no_strong pg) of
        Inl e \<Rightarrow> Inl e
      | Inr rera_regd_no_text \<Rightarrow>
     (case promoter_details pg of
        None \<Rightarrow> Inl AutomationError
      | Some body \<Rightarrow>
          (let promoter_name_text =
                 fst (poll_two_sources (company_name body) (propietory_name body)
                        (promoter_lag body) 0);
               address_text =
                 fst (poll_two_sources (registered_address body) (permanent_address body)
                        (address_lag body) 0);
               gst_no_text = fst (poll_gst (gst_no body) (gst_lag body) 0)
           in Inr (dict_set ''GST No.'' gst_no_text
                    (dict_set ''Address of the Promoter'' address_text
                      (dict_set ''Promoter Name'' promoter_name_text
                        (dict_set ''Rera Regd. No'' rera_regd_no_text
                          (dict_set ''Project Name'' project_name_text [])))),
                   promoter_name_text, address_text)))))"

section \<open>The orchestration loop\<close>

text \<open>
  The state of the loop of \<open>main\<close> (lines 94-316): the candidate names, the cursor, the
  accumulated records, and the log. \<open>logged\<close> keeps the WARNING and ERROR records
  of the loop and the record that reports the output; INFO records are left out.
\<close>

record run_state =
  project_names :: "string list"
  project_names_index :: nat
  project_data :: "details list"
  logged :: "string list"

text \<open>
  What the site shows. A card has the texts of its \<open>h5\<close> elements and its "View
  Details" buttons; a button is known by what clicking it leads to: a navigation error
  (with its message) or a detail page.
\<close>

datatype click = NavigationError string | Opens detail_page

record card =
  h5s :: "string list"
  view_details_btns :: "click list"

text \<open>
  One iteration of the loop reloads the list page once or twice: \<open>relisting\<close> is the
  reload of lines 100-103 (used only when the cursor has outrun the names), \<open>listing\<close>
  the reload of lines 125-143. Each is the list of cards found, or \<open>None\<close> when the
  reload or one of its waits raises.
\<close>

record visit =
  relisting :: "card list option"
  listing :: "card list option"

text \<open>Lines 83-91: the initial names, at most six.\<close>

fun collect_top :: "card list \<Rightarrow> string list \<Rightarrow> string list" where
  "collect_top [] names = names"
| "collect_top (c # all_cards) names =
     (case h5s c of
        [] \<Rightarrow> collect_top all_cards names
      | h # _ \<Rightarrow>
          (let name = strip h;
               names' = (if name \<noteq> [] \<and> lower name \<noteq> ''filter'' then names @ [name] else names)
           in if length names' = 6 then names' else collect_top all_cards names'))"

text \<open>Lines 104-111: the names of a reloaded list, without a cap.\<close>

fun collect_new :: "card list \<Rightarrow> string list \<Rightarrow> string list" where
  "collect_new [] names = names"
| "collect_new (c # all_cards_new) names =
     (case h5s c of
        [] \<Rightarrow> collect_new all_cards_new names
      | h # _ \<Rightarrow>
          (let name = strip h
           in if name \<noteq> [] \<and> lower name \<noteq> ''filter''
              then collect_new all_cards_new (names @ [name])
              else collect_new all_cards_new names))"

text \<open>Lines 298-308: the completeness test, then the append or the skip.\<close>

definition keep_or_skip :: "string \<Rightarrow> details \<times> string \<times> string \<Rightarrow> run_state \<Rightarrow> run_state" where
  "keep_or_skip project_name scraped st =
     (case scraped of (current_project_details, promoter_name_text, address_text) \<Rightarrow>
        (let promoter_name = (if promoter_name_text \<noteq> [] then strip promoter_name_text else ''--'');
             address = (if address_text \<noteq> [] then strip address_text else ''--'')
         in if promoter_name = [] \<or> address = []
            then st\<lparr>logged := logged st @
                   [''Skipping project '' @ project_name @
                    '' because either Promoter Name or Address is blank.'']\<rparr>
            else st\<lparr>project_data := project_data st @
                   [dict_set ''Address of the Promoter'' address
                     (dict_set ''Promoter Name'' promoter_name current_project_details)]\<rparr>))"

text \<open>
  Lines 144-311: the \<open>for\<close> loop over the cards of the reloaded list. The result is
  the flag \<open>found\<close> and the state, or the error that leaves \<open>main\<close>.
\<close>

fun find_card :: "string \<Rightarrow> card list \<Rightarrow> run_state \<Rightarrow> error + bool \<times> run_state" where
  "find_card project_name [] st = Inr (False, st)"
| "find_card project_name (c # cards) st =
     (case h5s c of
        [] \<Rightarrow> find_card project_name cards st
      | h # _ \<Rightarrow>
          if strip h = project_name then
            (case view_details_btns c of
               [] \<Rightarrow> find_card project_name cards st
             | btn # _ \<Rightarrow>
                 (case btn of
                    NavigationError e \<Rightarrow>
                      Inr (True, st\<lparr>project_names_index := project_names_index st + 1,
                                    logged := logged st @
                                      [''Navigation error after clicking View Details for '' @
                                       project_name @ '': '' @ e]\<rparr>)
                  | Opens pg \<Rightarrow>
                      (case scrape_detail pg of
                         Inl err \<Rightarrow> Inl err
                       | Inr scraped \<Rightarrow> Inr (True, keep_or_skip project_name scraped st))))
          else find_card project_name cards st)"

datatype step = Continue run_state | Stop run_state | Abort error

text \<open>
  Lines 97-118: when the cursor has reached the end of the names, reload and collect;
  \<open>Stop\<close> is the \<open>break\<close> of line 115.
\<close>

definition extend_names :: "visit \<Rightarrow> run_state \<Rightarrow> step" where
  "extend_names v st =
     (if length (project_names st) \<le> project_names_index st then
        (case relisting v of
           None \<Rightarrow> Abort AutomationError
         | Some all_cards_new \<Rightarrow>
             (let project_names_new = collect_new all_cards_new []
              in if length project_names_new \<le> project_names_index st
                 then Stop (st\<lparr>logged := logged st @
                        [''No more new projects found on the page to process.'']\<rparr>)
                 else Continue (st\<lparr>project_names := project_names st @
                        drop (project_names_index st) project_names_new\<rparr>)))
      else Continue st)"

text \<open>
  Lines 97-316: the body of the \<open>while\<close> loop. \<open>project_names[project_names_index]\<close>
  raises \<open>IndexError\<close> when the cursor is past the end.
\<close>

definition loop_body :: "visit \<Rightarrow> run_state \<Rightarrow> step" where
  "loop_body v st0 =
     (case extend_names v st0 of
        Abort e \<Rightarrow> Abort e
      | Stop st \<Rightarrow> Stop st
      | Continue st \<Rightarrow>
          if length (project_names st) \<le> project_names_index st then Abort IndexError
          else
            (let project_name = project_names st ! project_names_index st
             in case listing v of
                  None \<Rightarrow> Abort AutomationError
                | Some cards \<Rightarrow>
                    (case find_card project_name cards st of
                       Inl e \<Rightarrow> Abort e
                     | Inr (found, st') \<Rightarrow>
                         (let st'' =
                                (if \<not> found
                                 then st'\<lparr>logged := logged st' @
                                        [''Project card for '' @ [CHR 0x27] @ project_name @
                                         [CHR 0x27] @ '' not found on reload.'']\<rparr>
                                 else st')
                          in Continue (st''\<lparr>project_names_index :=
                                              project_names_index st'' + 1\<rparr>)))))"

text \<open>
  Line 96: the \<open>while\<close> loop. The site is given as the list of what it shows in the
  successive iterations; the result is \<open>None\<close> when the loop would go on beyond that
  list, \<open>Some (Inl e)\<close> when an error leaves the loop, \<open>Some (Inr st)\<close> when the
  loop ends in state \<open>st\<close>.
\<close>

fun run_loop :: "visit list \<Rightarrow> run_state \<Rightarrow> (error + run_state) option" where
  "run_loop visits st =
     (if length (project_data st) < 6 then
        (case visits of
           [] \<Rightarrow> None
         | v # visits' \<Rightarrow>
             (case loop_body v st of
                Continue st' \<Rightarrow> run_loop visits' st'
              | Stop st' \<Rightarrow> Some (Inr st')
              | Abort e \<Rightarrow> Some (Inl e)))
      else Some (Inr st))"

declare run_loop.simps [simp del]

text \<open>The states the loop passes through, from the state of lines 94-95.\<close>

definition initial_state :: "card list \<Rightarrow> run_state" where
  "initial_state all_cards =
     \<lparr>project_names = collect_top all_cards [], project_names_index = 0,
      project_data = [], logged = []\<rparr>"

inductive reachable :: "run_state \<Rightarrow> bool" where
  start: "reachable (initial_state all_cards)"
| iterate: "reachable st \<Longrightarrow> length (project_data st) < 6 \<Longrightarrow>
            loop_body v st = Continue st' \<Longrightarrow> reachable st'"
| leave: "reachable st \<Longrightarrow> length (project_data st) < 6 \<Longrightarrow>
          loop_body v st = Stop st' \<Longrightarrow> reachable st'"

code_pred reachable .

section \<open>The output\<close>

text \<open>
  Lines 321-330. The file is a header and rows. \<open>csv.DictWriter\<close> takes the field
  names from the first record, fills a missing key with the empty string and raises
  \<open>ValueError\<close> on a record with a key that is not a field name. The result is the
  file written, if any, and the record logged.
\<close>

type_synonym csv_file = "string list \<times> string list list"

definition row_of :: "string list \<Rightarrow> details \<Rightarrow> string list" where
  "row_of fieldnames d = map (\<lambda>k. case map_of d k of None \<Rightarrow> [] | Some v \<Rightarrow> v) fieldnames"

definition write_results :: "details list \<Rightarrow> error + csv_file option \<times> string" where
  "write_results data =
     (case data of
        [] \<Rightarrow> Inr (None, ''No data to write to CSV.'')
      | d0 # _ \<Rightarrow>
          (let fieldnames = map fst d0
           in if list_all (\<lambda>d. list_all (\<lambda>k. k \<in> set fieldnames) (map fst d)) data
              then Inr (Some (fieldnames, map (row_of fieldnames) data),
                        ''Results written to projects_output.csv'')
              else Inl ValueError))"

text \<open>
  \<open>main\<close> from the first load of the list page (\<open>None\<close> when the launch, the load or
  a wait before the loop raises) to the output. Every error is caught and logged at the
  end of \<open>main\<close>, which then writes nothing.
\<close>

definition main :: "card list option \<Rightarrow> visit list \<Rightarrow> (error + csv_file option \<times> string list) option" where
  "main first_listing visits =
     (case first_listing of
        None \<Rightarrow> Some (Inl AutomationError)
      | Some all_cards \<Rightarrow>
          (case run_loop visits (initial_state all_cards) of
             None \<Rightarrow> None
           | Some (Inl e) \<Rightarrow> Some (Inl e)
           | Some (Inr st) \<Rightarrow>
               (case write_results (project_data st) of
                  Inl e \<Rightarrow> Some (Inl e)
                | Inr (file, line) \<Rightarrow> Some (Inr (file, logged st @ [line])))))"

section \<open>An example site\<close>

text \<open>
  Cards for the examples below. The detail pages show stable texts; the page of
  Gamma Heights shows a Company Name of two spaces; the button of Beta Towers fails to
  navigate. The stalled card is a card of Beta Towers whose button navigates, to a detail
  page on which the Promoter Details tab raises.
\<close>

definition steady_text :: "string \<Rightarrow> text_probe" where
  "steady_text t = \<lparr>is_visible = True, text_at = (\<lambda>i. Some t), lag_at = (\<lambda>i. 0)\<rparr>"

definition example_page :: "string \<Rightarrow> string \<Rightarrow> string \<Rightarrow> string \<Rightarrow> detail_page" where
  "example_page name regd company address =
     \<lparr>project_name_strong = steady_text name,
      rera_regd_no_strong = steady_text regd,
      promoter_details = Some
        \<lparr>company_name = (\<lambda>k. [company]), propietory_name = (\<lambda>k. []),
         promoter_lag = (\<lambda>k. 0),
         registered_address = (\<lambda>k. [address]), permanent_address = (\<lambda>k. []),
         address_lag = (\<lambda>k. 0),
         gst_no = (\<lambda>k. [''--'']), gst_lag = (\<lambda>k. 0)\<rparr>\<rparr>"

definition alpha_card :: card where
  "alpha_card = \<lparr>h5s = [''Alpha Residency''], view_details_btns =
     [Opens (example_page ''Alpha Residency'' ''RP/19/2024/01'' ''Acme Builders'' ''Plot 7, Cuttack'')]\<rparr>"

definition beta_card :: card where
  "beta_card = \<lparr>h5s = [''Beta Towers''], view_details_btns =
     [NavigationError ''Timeout 30000ms exceeded.'']\<rparr>"

definition gamma_card :: card where
  "gamma_card = \<lparr>h5s = [''Gamma Heights''], view_details_btns =
     [Opens (example_page ''Gamma Heights'' ''RP/19/2024/02'' ''  '' ''Plot 9, Puri'')]\<rparr>"

definition stalled_card :: card where
  "stalled_card = \<lparr>h5s = [''Beta Towers''], view_details_btns =
     [Opens \<lparr>project_name_strong = steady_text ''Beta Towers'',
             rera_regd_no_strong = steady_text ''RP/19/2024/03'',
             promoter_details = None\<rparr>]\<rparr>"

section \<open>Facts about strings\<close>

lemma startswith_iff: "startswith s p \<longleftrightarrow> (\<exists>post. s = p @ post)"
  by (induction s p rule: startswith.induct) auto

lemma contains_iff: "contains s p \<longleftrightarrow> (\<exists>pre post. s = pre @ p @ post)"
proof (induction s)
  case Nil
  then show ?case by auto
next
  case (Cons c cs)
  show ?case
  proof
    assume "contains (c # cs) p"
    then consider "startswith (c # cs) p" | "contains cs p" by auto
    then show "\<exists>pre post. c # cs = pre @ p @ post"
    proof cases
      case 1
      then obtain post where "c # cs = p @ post" using startswith_iff by blast
      then have "c # cs = [] @ p @ post" by simp
      then show ?thesis by blast
    next
      case 2
      then obtain pre post where "cs = pre @ p @ post" using Cons.IH by blast
      then have "c # cs = (c # pre) @ p @ post" by simp
      then show ?thesis by blast
    qed
  next
    assume "\<exists>pre post. c # cs = pre @ p @ post"
    then obtain pre post where eq: "c # cs = pre @ p @ post" by blast
    show "contains (c # cs) p"
    proof (cases pre)
      case Nil
      with eq have "startswith (c # cs) p" using startswith_iff by auto
      then show ?thesis by simp
    next
      case (Cons a pre')
      with eq have "cs = pre' @ p @ post" by simp
      then have "contains cs p" using Cons.IH by blast
      then show ?thesis by simp
    qed
  qed
qed

lemma map_split:
  assumes "map f xs = a @ b"
  shows "\<exists>u v. xs = u @ v \<and> map f u = a \<and> map f v = b"
proof -
  have "xs = take (length a) xs @ drop (length a) xs" by simp
  moreover have "map f (take (length a) xs) = a"
    using assms by (simp add: take_map [symmetric])
  moreover have "map f (drop (length a) xs) = b"
    using assms by (simp add: drop_map [symmetric])
  ultimately show ?thesis by blast
qed

lemma contains_lower_iff:
  "contains (lower s) p \<longleftrightarrow> (\<exists>pre w post. s = pre @ w @ post \<and> lower w = p)"
proof
  assume "contains (lower s) p"
  then obtain a b where "map lower_char s = a @ (p @ b)"
    unfolding contains_iff lower_def by blast
  then obtain pre rest where s: "s = pre @ rest" and rest: "map lower_char rest = p @ b"
    using map_split by blast
  from rest obtain w post where "rest = w @ post" and "map lower_char w = p"
    using map_split by blast
  with s show "\<exists>pre w post. s = pre @ w @ post \<and> lower w = p"
    unfolding lower_def by blast
next
  assume "\<exists>pre w post. s = pre @ w @ post \<and> lower w = p"
  then obtain pre w post where "s = pre @ w @ post" and "lower w = p" by blast
  then have "lower s = lower pre @ p @ lower post" by (auto simp: lower_def)
  then show "contains (lower s) p" unfolding contains_iff by blast
qed

lemma strip_placeholder: "strip ''--'' = ''--''"
  by (simp add: strip_def py_isspace_def)

lemma strip_space: "strip '' '' = []"
  by (simp add: strip_def py_isspace_def)

lemma strip_Acme: "strip ''Acme Builders'' = ''Acme Builders''"
  by (simp add: strip_def py_isspace_def)

lemma strip_nonempty: "strip t \<noteq> [] \<Longrightarrow> t \<noteq> []"
  by (auto simp: strip_def)

lemma strip_padded_placeholder: "strip '' -- '' = ''--''"
  by (simp add: strip_def py_isspace_def)

lemmas string_eval = Let_def strip_def py_isspace_def lower_def lower_char_def uppercase_def lowercase_def

section \<open>Facts about the polling loops\<close>

text \<open>A loop that neither accepts nor times out in the cycles before \<open>k\<close> reaches cycle \<open>k\<close>.\<close>

lemma wait_text_pending:
  assumes "\<forall>i<k. shown i = Some ''--'' \<and> elapsed lag i < 60000"
  shows "wait_text shown lag 0 = wait_text shown lag k"
  using assms
proof (induction k)
  case 0
  show ?case by simp
next
  case (Suc k)
  then have "wait_text shown lag 0 = wait_text shown lag k" by simp
  moreover have "shown k = Some ''--''" and "elapsed lag k < 60000" using Suc.prems by auto
  then have "wait_text shown lag k = wait_text shown lag (Suc k)"
    by (subst wait_text.simps) simp
  ultimately show ?case by simp
qed

lemma wait_text_exit:
  assumes "shown k = Some t" and "t \<noteq> ''--'' \<or> 60000 \<le> elapsed lag k" and "shown (Suc k) = Some v"
  shows "wait_text shown lag k = Inr (v, k)"
  using assms by (subst wait_text.simps) auto

lemma poll_two_sources_pending:
  assumes "\<forall>i<k. \<not> offers (primary i) \<and> \<not> offers (secondary i) \<and>
             (primary i \<noteq> [] \<or> secondary i \<noteq> []) \<and> elapsed lag i \<le> 40000"
  shows "poll_two_sources primary secondary lag 0 = poll_two_sources primary secondary lag k"
  using assms
proof (induction k)
  case 0
  show ?case by simp
next
  case (Suc k)
  then have "poll_two_sources primary secondary lag 0 = poll_two_sources primary secondary lag k"
    by simp
  moreover have "poll_two_sources primary secondary lag k = poll_two_sources primary secondary lag (Suc k)"
    using Suc.prems by (subst poll_two_sources.simps) auto
  ultimately show ?case by simp
qed

lemma poll_two_sources_nonempty: "fst (poll_two_sources primary secondary lag k) \<noteq> []"
proof (induction primary secondary lag k rule: poll_two_sources.induct)
  case (1 primary secondary lag k)
  show ?case
    using "1.IH" by (subst poll_two_sources.simps) (auto simp: offers_def)
qed

lemma poll_gst_pending:
  assumes "\<forall>i<k. \<not> gst_offers (gst i) \<and> elapsed lag i \<le> 40000"
  shows "poll_gst gst lag 0 = poll_gst gst lag k"
  using assms
proof (induction k)
  case 0
  show ?case by simp
next
  case (Suc k)
  then have "poll_gst gst lag 0 = poll_gst gst lag k" by simp
  moreover have "poll_gst gst lag k = poll_gst gst lag (Suc k)"
    using Suc.prems by (subst poll_gst.simps) auto
  ultimately show ?case by simp
qed

lemma poll_gst_accept:
  assumes "\<forall>i<k. \<not> gst_offers (gst i) \<and> elapsed lag i \<le> 40000" and "gst_offers (gst k)"
  shows "poll_gst gst lag 0 = (hd (gst k), k)"
proof -
  have "poll_gst gst lag 0 = poll_gst gst lag k"
    using assms(1) by (rule poll_gst_pending)
  also have "\<dots> = (hd (gst k), k)"
    using assms(2) by (subst poll_gst.simps) simp
  finally show ?thesis .
qed

lemma poll_gst_timeout:
  assumes "\<forall>i\<le>k. \<not> gst_offers (gst i)" and "\<forall>i<k. elapsed lag i \<le> 40000"
    and "40000 < elapsed lag k"
  shows "poll_gst gst lag 0 = (''--'', k)"
proof -
  have "poll_gst gst lag 0 = poll_gst gst lag k"
    using assms by (intro poll_gst_pending) auto
  also have "\<dots> = (''--'', k)"
    using assms by (subst poll_gst.simps) simp
  finally show ?thesis .
qed

lemma poll_two_sources_timeout:
  assumes "\<forall>i\<le>k. \<not> offers (primary i) \<and> \<not> offers (secondary i) \<and>
             (primary i \<noteq> [] \<or> secondary i \<noteq> [])"
    and "\<forall>i<k. elapsed lag i \<le> 40000" and "40000 < elapsed lag k"
  shows "poll_two_sources primary secondary lag 0 = (''--'', k)"
proof -
  have "poll_two_sources primary secondary lag 0 = poll_two_sources primary secondary lag k"
    using assms by (intro poll_two_sources_pending) auto
  also have "\<dots> = (''--'', k)"
    using assms by (subst poll_two_sources.simps) auto
  finally show ?thesis .
qed

section \<open>Facts about the orchestration loop\<close>

text \<open>
  One iteration leaves the accumulated records as they are or appends one record, which
  has the five keys in the order of their first assignment and a non-empty Promoter
  Name and Address.
\<close>

lemma scrape_detail_shape:
  assumes "scrape_detail pg = Inr (d, p, a)"
  shows "\<exists>x1 x2 x5. d = [(''Project Name'', x1), (''Rera Regd. No'', x2), (''Promoter Name'', p),
           (''Address of the Promoter'', a), (''GST No.'', x5)]"
    and "p \<noteq> []" and "a \<noteq> []"
  using assms poll_two_sources_nonempty
  by (auto simp: scrape_detail_def Let_def split: sum.splits option.splits)

lemma keep_or_skip_effect:
  assumes "scrape_detail pg = Inr scraped"
  shows "project_names (keep_or_skip pn scraped st) = project_names st \<and>
         project_names_index (keep_or_skip pn scraped st) = project_names_index st \<and>
         (project_data (keep_or_skip pn scraped st) = project_data st \<or>
          (\<exists>x1 x2 p a x5. p \<noteq> [] \<and> a \<noteq> [] \<and>
             project_data (keep_or_skip pn scraped st) = project_data st @
               [[(''Project Name'', x1), (''Rera Regd. No'', x2), (''Promoter Name'', p),
                 (''Address of the Promoter'', a), (''GST No.'', x5)]]))"
proof -
  obtain d p a where s: "scraped = (d, p, a)" by (cases scraped) auto
  from scrape_detail_shape [OF assms [unfolded s]]
  obtain x1 x2 x5 where d: "d = [(''Project Name'', x1), (''Rera Regd. No'', x2), (''Promoter Name'', p),
           (''Address of the Promoter'', a), (''GST No.'', x5)]" and "p \<noteq> []" and "a \<noteq> []"
    by blast
  then show ?thesis
    unfolding s keep_or_skip_def by (auto simp: Let_def)
qed

lemma find_card_effect:
  assumes "find_card pn cards st = Inr (found, st')"
  shows "project_names st' = project_names st \<and>
         (project_names_index st' = project_names_index st \<or>
          project_names_index st' = project_names_index st + 1) \<and>
         (project_data st' = project_data st \<or>
          (\<exists>x1 x2 p a x5. p \<noteq> [] \<and> a \<noteq> [] \<and>
             project_data st' = project_data st @
               [[(''Project Name'', x1), (''Rera Regd. No'', x2), (''Promoter Name'', p),
                 (''Address of the Promoter'', a), (''GST No.'', x5)]]))"
  using assms
proof (induction cards)
  case Nil
  then show ?case by simp
next
  case (Cons c cards)
  show ?case
  proof (cases "h5s c")
    case Nil
    with Cons show ?thesis by simp
  next
    case h: (Cons h hs)
    show ?thesis
    proof (cases "strip h = pn")
      case False
      with Cons h show ?thesis by simp
    next
      case True
      show ?thesis
      proof (cases "view_details_btns c")
        case Nil
        with Cons h True show ?thesis by simp
      next
        case b: (Cons btn btns)
        show ?thesis
        proof (cases btn)
          case (NavigationError e)
          with Cons.prems h True b show ?thesis by auto
        next
          case (Opens pg)
          with Cons.prems h True b obtain scraped where
            sc: "scrape_detail pg = Inr scraped" and st': "st' = keep_or_skip pn scraped st"
            by (auto split: sum.splits)
          show ?thesis
            unfolding st' using keep_or_skip_effect [OF sc, of pn st] by auto
        qed
      qed
    qed
  qed
qed

lemma loop_body_effect:
  assumes "loop_body v st = Continue st' \<or> loop_body v st = Stop st'"
  shows "project_data st' = project_data st \<or>
          (\<exists>x1 x2 p a x5. p \<noteq> [] \<and> a \<noteq> [] \<and>
             project_data st' = project_data st @
               [[(''Project Name'', x1), (''Rera Regd. No'', x2), (''Promoter Name'', p),
                 (''Address of the Promoter'', a), (''GST No.'', x5)]])"
proof -
  consider (stop) st1 where "extend_names v st = Stop st1" "st' = st1"
    | (cont) st1 cards found st2 where "extend_names v st = Continue st1"
        "find_card (project_names st1 ! project_names_index st1) cards st1 = Inr (found, st2)"
        "project_data st' = project_data st2"
    using assms
    by (auto simp: loop_body_def Let_def split: step.splits if_splits option.splits sum.splits)
  then show ?thesis
  proof cases
    case stop
    then show ?thesis
      by (auto simp: extend_names_def Let_def split: if_splits option.splits)
  next
    case cont
    from cont(1) have "project_data st1 = project_data st"
      by (auto simp: extend_names_def Let_def split: if_splits option.splits)
    with find_card_effect [OF cont(2)] cont(3) show ?thesis by auto
  qed
qed

lemma reachable_records:
  assumes "reachable st"
  shows "length (project_data st) \<le> 6 \<and>
         (\<forall>d\<in>set (project_data st). \<exists>x1 x2 p a x5. p \<noteq> [] \<and> a \<noteq> [] \<and>
            d = [(''Project Name'', x1), (''Rera Regd. No'', x2), (''Promoter Name'', p),
                 (''Address of the Promoter'', a), (''GST No.'', x5)])"
  using assms
proof (induction rule: reachable.induct)
  case (start all_cards)
  show ?case by (simp add: initial_state_def)
next
  case (iterate st v st')
  from loop_body_effect [of v st st'] iterate show ?case by auto
next
  case (leave st v st')
  from loop_body_effect [of v st st'] leave show ?case by auto
qed

lemma run_loop_continue:
  "length (project_data st) < 6 \<Longrightarrow> loop_body v st = Continue st' \<Longrightarrow>
   run_loop (v # visits) st = run_loop visits st'"
  by (subst run_loop.simps) simp

lemma run_loop_stop:
  "length (project_data st) < 6 \<Longrightarrow> loop_body v st = Stop st' \<Longrightarrow>
   run_loop (v # visits) st = Some (Inr st')"
  by (subst run_loop.simps) simp

lemma run_loop_abort:
  "length (project_data st) < 6 \<Longrightarrow> loop_body v st = Abort e \<Longrightarrow>
   run_loop (v # visits) st = Some (Inl e)"
  by (subst run_loop.simps) simp

lemma run_loop_reachable:
  assumes "run_loop visits st = Some (Inr st')" and "reachable st"
  shows "reachable st'"
  using assms
proof (induction visits arbitrary: st)
  case Nil
  then show ?case
    by (subst (asm) run_loop.simps) (auto split: if_splits)
next
  case (Cons v visits)
  from Cons.prems(1) show ?case
  proof (subst (asm) run_loop.simps, simp split: if_splits step.splits)
    fix st1
    assume "length (project_data st) < 6" "loop_body v st = Continue st1"
      "run_loop visits st1 = Some (Inr st')"
    then show "reachable st'"
      using Cons.IH [of st1] Cons.prems(2) reachable.iterate by blast
  next
    assume "length (project_data st) < 6" "loop_body v st = Stop st'"
    then show "reachable st'"
      using Cons.prems(2) reachable.leave by blast
  next
    assume "st = st'"
    then show "reachable st'" using Cons.prems(2) by simp
  qed
qed

lemma write_results_shape:
  assumes "\<forall>d\<in>set data. \<exists>x1 x2 p a x5.
     d = [(''Project Name'', x1), (''Rera Regd. No'', x2), (''Promoter Name'', p),
          (''Address of the Promoter'', a), (''GST No.'', x5)]"
  shows "write_results data =
     (if data = [] then Inr (None, ''No data to write to CSV.'')
      else Inr (Some ([''Project Name'', ''Rera Regd. No'', ''Promoter Name'',
                       ''Address of the Promoter'', ''GST No.''], map (map snd) data),
                ''Results written to projects_output.csv''))"
proof (cases data)
  case Nil
  then show ?thesis by (simp add: write_results_def)
next
  case (Cons d0 ds)
  have keys: "map fst d = [''Project Name'', ''Rera Regd. No'', ''Promoter Name'',
                       ''Address of the Promoter'', ''GST No.'']" if "d \<in> set data" for d
    using assms that by fastforce
  have row: "row_of [''Project Name'', ''Rera Regd. No'', ''Promoter Name'',
                       ''Address of the Promoter'', ''GST No.''] d = map snd d" if "d \<in> set data" for d
    using assms that by (fastforce simp: row_of_def)
  have "list_all (\<lambda>d. list_all (\<lambda>k. k \<in> set (map fst d0)) (map fst d)) data"
    unfolding list_all_iff using keys Cons by simp
  moreover have "map (row_of (map fst d0)) data = map (map snd) data"
    using keys [of d0] row Cons by simp
  ultimately show ?thesis
    using Cons keys [of d0] by (simp add: write_results_def Let_def)
qed

section \<open>The example site, evaluated\<close>

lemma scrape_alpha:
  "scrape_detail (example_page ''Alpha Residency'' ''RP/19/2024/01'' ''Acme Builders'' ''Plot 7, Cuttack'')
   = Inr ([(''Project Name'', ''Alpha Residency''), (''Rera Regd. No'', ''RP/19/2024/01''),
           (''Promoter Name'', ''Acme Builders''), (''Address of the Promoter'', ''Plot 7, Cuttack''),
           (''GST No.'', ''--'')], ''Acme Builders'', ''Plot 7, Cuttack'')"
  by (simp add: scrape_detail_def example_page_def steady_text_def resolve_text_def
      wait_text.simps poll_two_sources.simps poll_gst.simps offers_def gst_offers_def
      elapsed_def string_eval)

lemma scrape_gamma:
  "scrape_detail (example_page ''Gamma Heights'' ''RP/19/2024/02'' ''  '' ''Plot 9, Puri'')
   = Inr ([(''Project Name'', ''Gamma Heights''), (''Rera Regd. No'', ''RP/19/2024/02''),
           (''Promoter Name'', ''  ''), (''Address of the Promoter'', ''Plot 9, Puri''),
           (''GST No.'', ''--'')], ''  '', ''Plot 9, Puri'')"
  by (simp add: scrape_detail_def example_page_def steady_text_def resolve_text_def
      wait_text.simps poll_two_sources.simps poll_gst.simps offers_def gst_offers_def
      elapsed_def string_eval)

lemma initial_alpha_beta:
  "initial_state [alpha_card, beta_card] =
     \<lparr>project_names = [''Alpha Residency'', ''Beta Towers''], project_names_index = 0,
      project_data = [], logged = []\<rparr>"
  by (simp add: initial_state_def alpha_card_def beta_card_def string_eval)

lemma initial_gamma:
  "initial_state [gamma_card] =
     \<lparr>project_names = [''Gamma Heights''], project_names_index = 0,
      project_data = [], logged = []\<rparr>"
  by (simp add: initial_state_def gamma_card_def string_eval)

lemma alpha_iteration:
  "loop_body \<lparr>relisting = None, listing = Some [alpha_card, beta_card]\<rparr>
     \<lparr>project_names = [''Alpha Residency'', ''Beta Towers''], project_names_index = 0,
      project_data = [], logged = []\<rparr>
   = Continue
     \<lparr>project_names = [''Alpha Residency'', ''Beta Towers''], project_names_index = 1,
      project_data = [[(''Project Name'', ''Alpha Residency''), (''Rera Regd. No'', ''RP/19/2024/01''),
           (''Promoter Name'', ''Acme Builders''), (''Address of the Promoter'', ''Plot 7, Cuttack''),
           (''GST No.'', ''--'')]], logged = []\<rparr>"
  by (simp add: loop_body_def extend_names_def alpha_card_def beta_card_def scrape_alpha
      keep_or_skip_def string_eval)

lemma beta_iteration:
  "loop_body \<lparr>relisting = None, listing = Some [alpha_card, beta_card]\<rparr>
     \<lparr>project_names = [''Alpha Residency'', ''Beta Towers''], project_names_index = 1,
      project_data = pd, logged = []\<rparr>
   = Continue
     \<lparr>project_names = [''Alpha Residency'', ''Beta Towers''], project_names_index = 3,
      project_data = pd,
      logged = [''Navigation error after clicking View Details for Beta Towers: Timeout 30000ms exceeded.'']\<rparr>"
  by (simp add: loop_body_def extend_names_def alpha_card_def beta_card_def string_eval)

lemma exhausted_iteration:
  "loop_body \<lparr>relisting = Some [alpha_card, beta_card, gamma_card], listing = Some [alpha_card, beta_card, gamma_card]\<rparr>
     \<lparr>project_names = [''Alpha Residency'', ''Beta Towers''], project_names_index = 3,
      project_data = pd, logged = lg\<rparr>
   = Stop
     \<lparr>project_names = [''Alpha Residency'', ''Beta Towers''], project_names_index = 3,
      project_data = pd,
      logged = lg @ [''No more new projects found on the page to process.'']\<rparr>"
  by (simp add: loop_body_def extend_names_def alpha_card_def beta_card_def gamma_card_def string_eval)

lemma gamma_iteration:
  "loop_body \<lparr>relisting = None, listing = Some [gamma_card]\<rparr>
     \<lparr>project_names = [''Gamma Heights''], project_names_index = 0,
      project_data = [], logged = []\<rparr>
   = Continue
     \<lparr>project_names = [''Gamma Heights''], project_names_index = 1,
      project_data = [],
      logged = [''Skipping project Gamma Heights because either Promoter Name or Address is blank.'']\<rparr>"
  by (simp add: loop_body_def extend_names_def gamma_card_def scrape_gamma
      keep_or_skip_def string_eval)

lemma missing_iteration:
  "loop_body \<lparr>relisting = None, listing = Some [alpha_card]\<rparr>
     \<lparr>project_names = [''Beta Towers''], project_names_index = 0,
      project_data = [], logged = []\<rparr>
   = Continue
     \<lparr>project_names = [''Beta Towers''], project_names_index = 1,
      project_data = [],
      logged = [''Project card for '' @ [CHR 0x27] @ ''Beta Towers'' @ [CHR 0x27] @
                '' not found on reload.'']\<rparr>"
  by (simp add: loop_body_def extend_names_def alpha_card_def string_eval)

lemma gamma_exhausted:
  "loop_body \<lparr>relisting = Some [gamma_card], listing = None\<rparr>
     \<lparr>project_names = [''Gamma Heights''], project_names_index = 1,
      project_data = [], logged = lg\<rparr>
   = Stop
     \<lparr>project_names = [''Gamma Heights''], project_names_index = 1,
      project_data = [],
      logged = lg @ [''No more new projects found on the page to process.'']\<rparr>"
  by (simp add: loop_body_def extend_names_def gamma_card_def string_eval)

lemma reachable_alpha:
  "reachable \<lparr>project_names = [''Alpha Residency'', ''Beta Towers''], project_names_index = 1,
      project_data = [[(''Project Name'', ''Alpha Residency''), (''Rera Regd. No'', ''RP/19/2024/01''),
           (''Promoter Name'', ''Acme Builders''), (''Address of the Promoter'', ''Plot 7, Cuttack''),
           (''GST No.'', ''--'')]], logged = []\<rparr>"
proof -
  have "reachable (initial_state [alpha_card, beta_card])" by (rule reachable.start)
  then show ?thesis
    unfolding initial_alpha_beta
    by (rule reachable.iterate [OF _ _ alpha_iteration]) simp
qed

lemma scenario_run:
  "run_loop
     [\<lparr>relisting = None, listing = Some [alpha_card, beta_card]\<rparr>,
      \<lparr>relisting = None, listing = Some [alpha_card, beta_card]\<rparr>,
      \<lparr>relisting = Some [alpha_card, beta_card, gamma_card],
       listing = Some [alpha_card, beta_card, gamma_card]\<rparr>]
     (initial_state [alpha_card, beta_card])
   = Some (Inr
     \<lparr>project_names = [''Alpha Residency'', ''Beta Towers''], project_names_index = 3,
      project_data = [[(''Project Name'', ''Alpha Residency''), (''Rera Regd. No'', ''RP/19/2024/01''),
           (''Promoter Name'', ''Acme Builders''), (''Address of the Promoter'', ''Plot 7, Cuttack''),
           (''GST No.'', ''--'')]],
      logged = [''Navigation error after clicking View Details for Beta Towers: Timeout 30000ms exceeded.'',
                ''No more new projects found on the page to process.'']\<rparr>)"
proof -
  let ?v = "\<lparr>relisting = None, listing = Some [alpha_card, beta_card]\<rparr>"
  let ?w = "\<lparr>relisting = Some [alpha_card, beta_card, gamma_card],
       listing = Some [alpha_card, beta_card, gamma_card]\<rparr>"
  let ?alpha = "[(''Project Name'', ''Alpha Residency''), (''Rera Regd. No'', ''RP/19/2024/01''),
           (''Promoter Name'', ''Acme Builders''), (''Address of the Promoter'', ''Plot 7, Cuttack''),
           (''GST No.'', ''--'')]"
  have "run_loop [?v, ?v, ?w] (initial_state [alpha_card, beta_card]) =
      run_loop [?v, ?w] \<lparr>project_names = [''Alpha Residency'', ''Beta Towers''],
        project_names_index = 1, project_data = [?alpha], logged = []\<rparr>"
    unfolding initial_alpha_beta using run_loop_continue [OF _ alpha_iteration] by simp
  also have "\<dots> = run_loop [?w] \<lparr>project_names = [''Alpha Residency'', ''Beta Towers''],
        project_names_index = 3, project_data = [?alpha],
        logged = [''Navigation error after clicking View Details for Beta Towers: Timeout 30000ms exceeded.'']\<rparr>"
    using run_loop_continue [OF _ beta_iteration [of "[?alpha]"]] by simp
  also have "\<dots> = Some (Inr \<lparr>project_names = [''Alpha Residency'', ''Beta Towers''],
        project_names_index = 3, project_data = [?alpha],
        logged = [''Navigation error after clicking View Details for Beta Towers: Timeout 30000ms exceeded.'',
                ''No more new projects found on the page to process.'']\<rparr>)"
    using run_loop_stop [OF _ exhausted_iteration [of "[?alpha]"
        "[''Navigation error after clicking View Details for Beta Towers: Timeout 30000ms exceeded.'']"]]
    by simp
  finally show ?thesis .
qed

lemma empty_run:
  "run_loop
     [\<lparr>relisting = None, listing = Some [gamma_card]\<rparr>,
      \<lparr>relisting = Some [gamma_card], listing = None\<rparr>]
     (initial_state [gamma_card])
   = Some (Inr
     \<lparr>project_names = [''Gamma Heights''], project_names_index = 1,
      project_data = [],
      logged = [''Skipping project Gamma Heights because either Promoter Name or Address is blank.'',
                ''No more new projects found on the page to process.'']\<rparr>)"
proof -
  let ?v = "\<lparr>relisting = None, listing = Some [gamma_card]\<rparr>"
  let ?w = "\<lparr>relisting = Some [gamma_card], listing = None\<rparr>"
  have "run_loop [?v, ?w] (initial_state [gamma_card]) =
      run_loop [?w] \<lparr>project_names = [''Gamma Heights''], project_names_index = 1,
        project_data = [],
        logged = [''Skipping project Gamma Heights because either Promoter Name or Address is blank.'']\<rparr>"
    unfolding initial_gamma using run_loop_continue [OF _ gamma_iteration] by simp
  also have "\<dots> = Some (Inr \<lparr>project_names = [''Gamma Heights''], project_names_index = 1,
        project_data = [],
        logged = [''Skipping project Gamma Heights because either Promoter Name or Address is blank.'',
                ''No more new projects found on the page to process.'']\<rparr>)"
    using run_loop_stop [OF _ gamma_exhausted [of
        "[''Skipping project Gamma Heights because either Promoter Name or Address is blank.'']"]]
    by simp
  finally show ?thesis .
qed

lemma initial_alpha_stalled:
  "initial_state [alpha_card, stalled_card] =
     \<lparr>project_names = [''Alpha Residency'', ''Beta Towers''], project_names_index = 0,
      project_data = [], logged = []\<rparr>"
  by (simp add: initial_state_def alpha_card_def stalled_card_def string_eval)

lemma alpha_then_stalled_iteration:
  "loop_body \<lparr>relisting = None, listing = Some [alpha_card, stalled_card]\<rparr>
     \<lparr>project_names = [''Alpha Residency'', ''Beta Towers''], project_names_index = 0,
      project_data = [], logged = []\<rparr>
   = Continue
     \<lparr>project_names = [''Alpha Residency'', ''Beta Towers''], project_names_index = 1,
      project_data = [[(''Project Name'', ''Alpha Residency''), (''Rera Regd. No'', ''RP/19/2024/01''),
           (''Promoter Name'', ''Acme Builders''), (''Address of the Promoter'', ''Plot 7, Cuttack''),
           (''GST No.'', ''--'')]], logged = []\<rparr>"
  by (simp add: loop_body_def extend_names_def alpha_card_def stalled_card_def scrape_alpha
      keep_or_skip_def string_eval)

lemma stalled_iteration:
  "loop_body \<lparr>relisting = None, listing = Some [alpha_card, stalled_card]\<rparr>
     \<lparr>project_names = [''Alpha Residency'', ''Beta Towers''], project_names_index = 1,
      project_data = pd, logged = lg\<rparr>
   = Abort AutomationError"
  by (simp add: loop_body_def extend_names_def alpha_card_def stalled_card_def
      scrape_detail_def steady_text_def resolve_text_def wait_text.simps string_eval)

lemma aborted_run:
  "run_loop
     [\<lparr>relisting = None, listing = Some [alpha_card, stalled_card]\<rparr>,
      \<lparr>relisting = None, listing = Some [alpha_card, stalled_card]\<rparr>]
     (initial_state [alpha_card, stalled_card])
   = Some (Inl AutomationError)"
proof -
  let ?v = "\<lparr>relisting = None, listing = Some [alpha_card, stalled_card]\<rparr>"
  let ?alpha = "[(''Project Name'', ''Alpha Residency''), (''Rera Regd. No'', ''RP/19/2024/01''),
           (''Promoter Name'', ''Acme Builders''), (''Address of the Promoter'', ''Plot 7, Cuttack''),
           (''GST No.'', ''--'')]"
  have "run_loop [?v, ?v] (initial_state [alpha_card, stalled_card]) =
      run_loop [?v] \<lparr>project_names = [''Alpha Residency'', ''Beta Towers''],
        project_names_index = 1, project_data = [?alpha], logged = []\<rparr>"
    unfolding initial_alpha_stalled using run_loop_continue [OF _ alpha_then_stalled_iteration] by simp
  also have "\<dots> = Some (Inl AutomationError)"
    using run_loop_abort [OF _ stalled_iteration [of "[?alpha]" "[]"]] by simp
  finally show ?thesis .
qed

section \<open>Claims\<close>

text \<open>
  C1. Claimed: every processing attempt of a candidate (success, navigation failure,
  not found, skip) advances the cursor by exactly one. On a navigation failure the code
  advances it twice, at line 160 and again at line 316: with the names Alpha Residency
  and Beta Towers and the cursor on Beta Towers, whose button fails to navigate, the
  iteration leaves the cursor at 3 rather than 2. A candidate that is not found, one that is
  scraped and one that is skipped advance it by one.
\<close>

theorem C1_navigation_failure_advances_cursor_twice:
  "loop_body \<lparr>relisting = None, listing = Some [alpha_card, beta_card]\<rparr>
     \<lparr>project_names = [''Alpha Residency'', ''Beta Towers''], project_names_index = 1,
      project_data = [], logged = []\<rparr>
   = Continue
     \<lparr>project_names = [''Alpha Residency'', ''Beta Towers''], project_names_index = 3,
      project_data = [],
      logged = [''Navigation error after clicking View Details for Beta Towers: Timeout 30000ms exceeded.'']\<rparr> \<and>
   loop_body \<lparr>relisting = None, listing = Some [alpha_card]\<rparr>
     \<lparr>project_names = [''Beta Towers''], project_names_index = 0,
      project_data = [], logged = []\<rparr>
   = Continue
     \<lparr>project_names = [''Beta Towers''], project_names_index = 1,
      project_data = [],
      logged = [''Project card for '' @ [CHR 0x27] @ ''Beta Towers'' @ [CHR 0x27] @
                '' not found on reload.'']\<rparr> \<and>
   loop_body \<lparr>relisting = None, listing = Some [alpha_card, beta_card]\<rparr>
     \<lparr>project_names = [''Alpha Residency'', ''Beta Towers''], project_names_index = 0,
      project_data = [], logged = []\<rparr>
   = Continue
     \<lparr>project_names = [''Alpha Residency'', ''Beta Towers''], project_names_index = 1,
      project_data = [[(''Project Name'', ''Alpha Residency''), (''Rera Regd. No'', ''RP/19/2024/01''),
           (''Promoter Name'', ''Acme Builders''), (''Address of the Promoter'', ''Plot 7, Cuttack''),
           (''GST No.'', ''--'')]], logged = []\<rparr> \<and>
   loop_body \<lparr>relisting = None, listing = Some [gamma_card]\<rparr>
     \<lparr>project_names = [''Gamma Heights''], project_names_index = 0,
      project_data = [], logged = []\<rparr>
   = Continue
     \<lparr>project_names = [''Gamma Heights''], project_names_index = 1,
      project_data = [],
      logged = [''Skipping project Gamma Heights because either Promoter Name or Address is blank.'']\<rparr>"
  using beta_iteration [of "[]"] missing_iteration alpha_iteration gamma_iteration by simp

text \<open>
  C2. Every record in the accumulated sequence has a non-empty Promoter Name and a
  non-empty Address, in every state the loop reaches. A candidate whose resolved
  Promoter Name or Address is blank (empty once stripped) is not accumulated: the state
  only gains the warning that the project is skipped.
\<close>

theorem C2_accumulated_records_are_complete:
  "(reachable st \<longrightarrow>
      (\<forall>d\<in>set (project_data st). \<exists>p a. p \<noteq> [] \<and> a \<noteq> [] \<and>
         map_of d ''Promoter Name'' = Some p \<and> map_of d ''Address of the Promoter'' = Some a)) \<and>
   (scrape_detail pg = Inr (d, promoter_name_text, address_text) \<and>
      (strip promoter_name_text = [] \<or> strip address_text = [])
      \<longrightarrow> keep_or_skip project_name (d, promoter_name_text, address_text) st' =
            st'\<lparr>logged := logged st' @
               [''Skipping project '' @ project_name @
                '' because either Promoter Name or Address is blank.'']\<rparr>)"
proof (intro conjI impI)
  assume "reachable st"
  from reachable_records [OF this]
  show "\<forall>d\<in>set (project_data st). \<exists>p a. p \<noteq> [] \<and> a \<noteq> [] \<and>
         map_of d ''Promoter Name'' = Some p \<and> map_of d ''Address of the Promoter'' = Some a"
    by fastforce
next
  assume a: "scrape_detail pg = Inr (d, promoter_name_text, address_text) \<and>
      (strip promoter_name_text = [] \<or> strip address_text = [])"
  then have "promoter_name_text \<noteq> []" and "address_text \<noteq> []"
    using scrape_detail_shape(2,3) by blast+
  with a show "keep_or_skip project_name (d, promoter_name_text, address_text) st' =
            st'\<lparr>logged := logged st' @
               [''Skipping project '' @ project_name @
                '' because either Promoter Name or Address is blank.'']\<rparr>"
    by (auto simp: keep_or_skip_def Let_def)
qed

theorem C2_accumulated_records_are_complete_witness:
  "reachable \<lparr>project_names = [''Alpha Residency'', ''Beta Towers''], project_names_index = 1,
      project_data = [[(''Project Name'', ''Alpha Residency''), (''Rera Regd. No'', ''RP/19/2024/01''),
           (''Promoter Name'', ''Acme Builders''), (''Address of the Promoter'', ''Plot 7, Cuttack''),
           (''GST No.'', ''--'')]], logged = []\<rparr> \<and>
   (\<exists>p a. p \<noteq> [] \<and> a \<noteq> [] \<and>
      map_of [(''Project Name'', ''Alpha Residency''), (''Rera Regd. No'', ''RP/19/2024/01''),
           (''Promoter Name'', ''Acme Builders''), (''Address of the Promoter'', ''Plot 7, Cuttack''),
           (''GST No.'', ''--'')] ''Promoter Name'' = Some p \<and>
      map_of [(''Project Name'', ''Alpha Residency''), (''Rera Regd. No'', ''RP/19/2024/01''),
           (''Promoter Name'', ''Acme Builders''), (''Address of the Promoter'', ''Plot 7, Cuttack''),
           (''GST No.'', ''--'')] ''Address of the Promoter'' = Some a) \<and>
   strip ''  '' = [] \<and>
   keep_or_skip ''Gamma Heights''
     ([(''Project Name'', ''Gamma Heights''), (''Rera Regd. No'', ''RP/19/2024/02''),
       (''Promoter Name'', ''  ''), (''Address of the Promoter'', ''Plot 9, Puri''),
       (''GST No.'', ''--'')], ''  '', ''Plot 9, Puri'')
     \<lparr>project_names = [''Gamma Heights''], project_names_index = 0,
      project_data = [], logged = []\<rparr>
   = \<lparr>project_names = [''Gamma Heights''], project_names_index = 0,
      project_data = [],
      logged = [''Skipping project Gamma Heights because either Promoter Name or Address is blank.'']\<rparr>"
proof -
  have blank: "strip ''  '' = []" by (simp add: strip_def py_isspace_def)
  show ?thesis
    using reachable_alpha blank scrape_gamma
      C2_accumulated_records_are_complete [of
        "\<lparr>project_names = [''Alpha Residency'', ''Beta Towers''], project_names_index = 1,
          project_data = [[(''Project Name'', ''Alpha Residency''), (''Rera Regd. No'', ''RP/19/2024/01''),
             (''Promoter Name'', ''Acme Builders''), (''Address of the Promoter'', ''Plot 7, Cuttack''),
             (''GST No.'', ''--'')]], logged = []\<rparr>"
        "example_page ''Gamma Heights'' ''RP/19/2024/02'' ''  '' ''Plot 9, Puri''"
        _ "''  ''" "''Plot 9, Puri''" "''Gamma Heights''"
        "\<lparr>project_names = [''Gamma Heights''], project_names_index = 0,
          project_data = [], logged = []\<rparr>"]
    by simp
qed

text \<open>
  C3. In every state the orchestration loop reaches, the number of accumulated records
  is at most 6.
\<close>

theorem C3_at_most_six_records:
  "reachable st \<Longrightarrow> length (project_data st) \<le> 6"
  using reachable_records by blast

theorem C3_at_most_six_records_witness:
  "reachable \<lparr>project_names = [''Alpha Residency'', ''Beta Towers''], project_names_index = 1,
      project_data = [[(''Project Name'', ''Alpha Residency''), (''Rera Regd. No'', ''RP/19/2024/01''),
           (''Promoter Name'', ''Acme Builders''), (''Address of the Promoter'', ''Plot 7, Cuttack''),
           (''GST No.'', ''--'')]], logged = []\<rparr> \<and>
   length (project_data \<lparr>project_names = [''Alpha Residency'', ''Beta Towers''], project_names_index = 1,
      project_data = [[(''Project Name'', ''Alpha Residency''), (''Rera Regd. No'', ''RP/19/2024/01''),
           (''Promoter Name'', ''Acme Builders''), (''Address of the Promoter'', ''Plot 7, Cuttack''),
           (''GST No.'', ''--'')]], logged = []\<rparr>) \<le> 6"
  using reachable_alpha C3_at_most_six_records [OF reachable_alpha] by simp

text \<open>
  C4. A field with two sources polls both in every cycle, in priority order. If no
  cycle before \<open>k\<close> decides (some source is present, none offers a value, the ceiling
  has not passed), then in cycle \<open>k\<close> the first source wins if it offers a value, the
  second if only it does, and if neither source is present the field resolves to "--"
  at once. A source offers a value when it is present and its text is non-empty and,
  stripped, not the placeholder. With Company Name absent and Proprietor Name showing
  "Acme Builders" the result is "Acme Builders"; with both absent it is "--", after no
  sleep.
\<close>

theorem C4_first_offering_source_wins:
  assumes "\<forall>i<k. \<not> offers (primary i) \<and> \<not> offers (secondary i) \<and>
             (primary i \<noteq> [] \<or> secondary i \<noteq> []) \<and> elapsed lag i \<le> 40000"
  shows "(offers (primary k)
            \<longrightarrow> poll_two_sources primary secondary lag 0 = (hd (primary k), k)) \<and>
         (\<not> offers (primary k) \<and> offers (secondary k)
            \<longrightarrow> poll_two_sources primary secondary lag 0 = (hd (secondary k), k)) \<and>
         (primary k = [] \<and> secondary k = []
            \<longrightarrow> poll_two_sources primary secondary lag 0 = (''--'', k))"
proof -
  have "poll_two_sources primary secondary lag 0 = poll_two_sources primary secondary lag k"
    using assms by (rule poll_two_sources_pending)
  moreover have "offers (primary k) \<Longrightarrow>
      poll_two_sources primary secondary lag k = (hd (primary k), k)"
    by (subst poll_two_sources.simps) simp
  moreover have "\<not> offers (primary k) \<and> offers (secondary k) \<Longrightarrow>
      poll_two_sources primary secondary lag k = (hd (secondary k), k)"
    by (subst poll_two_sources.simps) simp
  moreover have "primary k = [] \<and> secondary k = [] \<Longrightarrow>
      poll_two_sources primary secondary lag k = (''--'', k)"
    by (subst poll_two_sources.simps) (simp add: offers_def)
  ultimately show ?thesis by simp
qed

theorem C4_first_offering_source_wins_witness:
  "poll_two_sources (\<lambda>k. []) (\<lambda>k. [''Acme Builders'']) (\<lambda>k. 0) 0 = (''Acme Builders'', 0) \<and>
   poll_two_sources (\<lambda>k. []) (\<lambda>k. []) (\<lambda>k. 0) 0 = (''--'', 0) \<and>
   poll_two_sources (\<lambda>k. [''Acme Builders'']) (\<lambda>k. [''Other'']) (\<lambda>k. 0) 0 = (''Acme Builders'', 0) \<and>
   poll_two_sources (\<lambda>k. if k < 2 then [''--''] else []) (\<lambda>k. if k < 2 then [] else [''Acme Builders''])
     (\<lambda>k. 0) 0 = (''Acme Builders'', 2)"
proof -
  have a: "\<forall>i<0::nat. \<not> offers (p i) \<and> \<not> offers (s i) \<and> (p i \<noteq> [] \<or> s i \<noteq> []) \<and> elapsed (\<lambda>k. 0) i \<le> 40000"
    for p s :: "nat \<Rightarrow> string list"
    by simp
  have b: "\<forall>i<2::nat. \<not> offers (if i < 2 then [''--''] else []) \<and>
       \<not> offers (if i < 2 then [] else [''Acme Builders'']) \<and>
       ((if i < 2 then [''--''] else []) \<noteq> [] \<or> (if i < 2 then [] else [''Acme Builders'']) \<noteq> []) \<and>
       elapsed (\<lambda>k. 0) i \<le> 40000"
    by (simp add: offers_def strip_placeholder elapsed_def)
  show ?thesis
    using C4_first_offering_source_wins [OF a, of "\<lambda>k. []" "\<lambda>k. [''Acme Builders'']"]
      C4_first_offering_source_wins [OF a, of "\<lambda>k. []" "\<lambda>k. []"]
      C4_first_offering_source_wins [OF a, of "\<lambda>k. [''Acme Builders'']" "\<lambda>k. [''Other'']"]
      C4_first_offering_source_wins [OF b]
    by (simp add: offers_def strip_Acme)
qed

text \<open>
  C5. If the ceiling passes while the displayed text is still the placeholder, the
  resolution returns a value and no error: the single-source loop returns the text
  displayed at the read after the loop (possibly the placeholder), the two-source loop
  returns the placeholder.
\<close>

theorem C5_timeout_returns_displayed_value:
  "((\<forall>i\<le>k. shown i = Some ''--'') \<and> (\<forall>i<k. elapsed lag i < 60000) \<and>
      60000 \<le> elapsed lag k \<and> shown (Suc k) = Some v
      \<longrightarrow> wait_text shown lag 0 = Inr (v, k)) \<and>
   ((\<forall>i\<le>k. (primary i \<noteq> [] \<or> secondary i \<noteq> []) \<and>
             (primary i \<noteq> [] \<longrightarrow> hd (primary i) = ''--'') \<and>
             (secondary i \<noteq> [] \<longrightarrow> hd (secondary i) = ''--'')) \<and>
      (\<forall>i<k. elapsed lag' i \<le> 40000) \<and> 40000 < elapsed lag' k
      \<longrightarrow> poll_two_sources primary secondary lag' 0 = (''--'', k))"
proof (intro conjI impI)
  assume a: "(\<forall>i\<le>k. shown i = Some ''--'') \<and> (\<forall>i<k. elapsed lag i < 60000) \<and>
      60000 \<le> elapsed lag k \<and> shown (Suc k) = Some v"
  then have "wait_text shown lag 0 = wait_text shown lag k"
    by (intro wait_text_pending) auto
  also have "\<dots> = Inr (v, k)"
    using a by (intro wait_text_exit [where t = "''--''"]) auto
  finally show "wait_text shown lag 0 = Inr (v, k)" .
next
  assume a: "(\<forall>i\<le>k. (primary i \<noteq> [] \<or> secondary i \<noteq> []) \<and>
             (primary i \<noteq> [] \<longrightarrow> hd (primary i) = ''--'') \<and>
             (secondary i \<noteq> [] \<longrightarrow> hd (secondary i) = ''--'')) \<and>
      (\<forall>i<k. elapsed lag' i \<le> 40000) \<and> 40000 < elapsed lag' k"
  have no: "\<not> offers (primary i) \<and> \<not> offers (secondary i) \<and> (primary i \<noteq> [] \<or> secondary i \<noteq> [])"
    if "i \<le> k" for i
    using a that by (auto simp: offers_def strip_placeholder)
  have "poll_two_sources primary secondary lag' 0 = poll_two_sources primary secondary lag' k"
    using a no by (intro poll_two_sources_pending) auto
  also have "\<dots> = (''--'', k)"
    using a no [of k] by (subst poll_two_sources.simps) auto
  finally show "poll_two_sources primary secondary lag' 0 = (''--'', k)" .
qed

theorem C5_timeout_returns_displayed_value_witness:
  "wait_text (\<lambda>i. Some ''--'') (\<lambda>i. 0) 0 = Inr (''--'', 120) \<and>
   wait_text (\<lambda>i. if i \<le> 120 then Some ''--'' else Some ''Alpha Residency'') (\<lambda>i. 0) 0
     = Inr (''Alpha Residency'', 120) \<and>
   poll_two_sources (\<lambda>k. [''--'']) (\<lambda>k. []) (\<lambda>k. 0) 0 = (''--'', 81)"
proof -
  have a: "(\<forall>i\<le>120::nat. Some ''--'' = Some ''--'') \<and> (\<forall>i<120. elapsed (\<lambda>i. 0) i < 60000) \<and>
      60000 \<le> elapsed (\<lambda>i. 0) 120 \<and> Some ''--'' = Some ''--''"
    by (simp add: elapsed_def)
  have b: "(\<forall>i\<le>120::nat. (if i \<le> 120 then Some ''--'' else Some ''Alpha Residency'') = Some ''--'') \<and>
      (\<forall>i<120. elapsed (\<lambda>i. 0) i < 60000) \<and> 60000 \<le> elapsed (\<lambda>i. 0) 120 \<and>
      (if Suc 120 \<le> 120 then Some ''--'' else Some ''Alpha Residency'') = Some ''Alpha Residency''"
    by (simp add: elapsed_def)
  have c: "(\<forall>i\<le>81::nat. ([''--''] \<noteq> [] \<or> ([]::string list) \<noteq> []) \<and>
        ([''--''] \<noteq> [] \<longrightarrow> hd [''--''] = ''--'') \<and>
        (([]::string list) \<noteq> [] \<longrightarrow> hd ([]::string list) = ''--'')) \<and>
      (\<forall>i<81. elapsed (\<lambda>k. 0) i \<le> 40000) \<and> 40000 < elapsed (\<lambda>k. 0) 81"
    by (simp add: elapsed_def)
  show ?thesis
    using a b c
      C5_timeout_returns_displayed_value [of 120 "\<lambda>i. Some ''--''" "\<lambda>i. 0" "''--''"
        "\<lambda>k. []" "\<lambda>k. []" "\<lambda>k. 0"]
      C5_timeout_returns_displayed_value [of 120
        "\<lambda>i. if i \<le> 120 then Some ''--'' else Some ''Alpha Residency''" "\<lambda>i. 0" "''Alpha Residency''"
        "\<lambda>k. []" "\<lambda>k. []" "\<lambda>k. 0"]
      C5_timeout_returns_displayed_value [of 81 "\<lambda>i. None" "\<lambda>i. 0" "[]"
        "\<lambda>k. [''--'']" "\<lambda>k. []" "\<lambda>k. 0"]
    by simp
qed

text \<open>
  C6. The dialog handler accepts every alert, confirm, prompt and beforeunload dialog
  unconditionally. A dialog of any other kind is accepted if and only if its message
  mentions "location" in any mix of upper and lower case (some part \<open>w\<close> of the
  message lowers to \<open>location\<close>), and is dismissed otherwise.
\<close>

theorem C6_dialog_policy:
  "(dialog_type d \<in> {''alert'', ''confirm'', ''prompt'', ''beforeunload''}
      \<longrightarrow> handle_dialog d = Accept) \<and>
   (dialog_type d \<notin> {''alert'', ''confirm'', ''prompt'', ''beforeunload''}
      \<longrightarrow> (handle_dialog d = Accept \<longleftrightarrow>
             (\<exists>pre w post. message d = pre @ w @ post \<and> lower w = ''location'')) \<and>
          (handle_dialog d = Dismiss \<longleftrightarrow>
             \<not> (\<exists>pre w post. message d = pre @ w @ post \<and> lower w = ''location'')))"
proof -
  have mention: "contains (lower (message d)) ''location'' \<longleftrightarrow>
      (\<exists>pre w post. message d = pre @ w @ post \<and> lower w = ''location'')"
    by (rule contains_lower_iff)
  show ?thesis
    unfolding handle_dialog_def mention [symmetric] by auto
qed

theorem C6_dialog_policy_witness:
  "handle_dialog \<lparr>dialog_type = ''confirm'', message = ''Leave this page?''\<rparr> = Accept \<and>
   handle_dialog \<lparr>dialog_type = ''permission'', message = ''Allow LOCATION access?''\<rparr> = Accept \<and>
   (\<exists>pre w post. ''Allow LOCATION access?'' = pre @ w @ post \<and> lower w = ''location'') \<and>
   handle_dialog \<lparr>dialog_type = ''permission'', message = ''Show notifications?''\<rparr> = Dismiss \<and>
   \<not> (\<exists>pre w post. ''Show notifications?'' = pre @ w @ post \<and> lower w = ''location'')"
proof -
  have a: "handle_dialog \<lparr>dialog_type = ''permission'', message = ''Allow LOCATION access?''\<rparr> = Accept"
    by (simp add: handle_dialog_def lower_def lower_char_def uppercase_def lowercase_def)
  have b: "handle_dialog \<lparr>dialog_type = ''permission'', message = ''Show notifications?''\<rparr> = Dismiss"
    by (simp add: handle_dialog_def lower_def lower_char_def uppercase_def lowercase_def)
  show ?thesis
    using a b
      C6_dialog_policy [of "\<lparr>dialog_type = ''confirm'', message = ''Leave this page?''\<rparr>"]
      C6_dialog_policy [of "\<lparr>dialog_type = ''permission'', message = ''Allow LOCATION access?''\<rparr>"]
      C6_dialog_policy [of "\<lparr>dialog_type = ''permission'', message = ''Show notifications?''\<rparr>"]
    by simp
qed

text \<open>
  C7. If the cursor has outrun the names and the reloaded list has no name beyond those
  already known, the loop ends in this iteration, whatever the site would show next,
  with the accumulated records unchanged.
\<close>

theorem C7_no_growth_ends_the_run:
  assumes "length (project_data st) < 6"
    and "length (project_names st) \<le> project_names_index st"
    and "relisting v = Some all_cards_new"
    and "length (collect_new all_cards_new []) \<le> length (project_names st)"
  shows "run_loop (v # visits) st =
     Some (Inr (st\<lparr>logged := logged st @
        [''No more new projects found on the page to process.'']\<rparr>))"
proof -
  have "extend_names v st =
      Stop (st\<lparr>logged := logged st @ [''No more new projects found on the page to process.'']\<rparr>)"
    using assms by (simp add: extend_names_def Let_def)
  then have "loop_body v st =
      Stop (st\<lparr>logged := logged st @ [''No more new projects found on the page to process.'']\<rparr>)"
    by (simp add: loop_body_def)
  with assms(1) show ?thesis by (rule run_loop_stop)
qed

theorem C7_no_growth_ends_the_run_witness:
  "run_loop
     [\<lparr>relisting = Some [gamma_card], listing = None\<rparr>,
      \<lparr>relisting = None, listing = Some [gamma_card]\<rparr>]
     \<lparr>project_names = [''Gamma Heights''], project_names_index = 1,
      project_data = [], logged = []\<rparr>
   = Some (Inr
     \<lparr>project_names = [''Gamma Heights''], project_names_index = 1,
      project_data = [],
      logged = [''No more new projects found on the page to process.'']\<rparr>)"
  using C7_no_growth_ends_the_run [of
      "\<lparr>project_names = [''Gamma Heights''], project_names_index = 1,
        project_data = [], logged = []\<rparr>"
      "\<lparr>relisting = Some [gamma_card], listing = None\<rparr>" "[gamma_card]"
      "[\<lparr>relisting = None, listing = Some [gamma_card]\<rparr>]"]
  by (simp add: gamma_card_def string_eval)

text \<open>
  C8, as claimed: at the end of the run the output file is written if and only if at
  least one record was accumulated. A run that an uncaught error ends writes nothing,
  whatever it has accumulated: the first iteration accumulates the record of Alpha
  Residency, in the second the Promoter Details tab of Beta Towers raises, and
  \<open>main\<close> ends with the error and without a file.
\<close>

theorem C8_aborted_run_counterexample:
  "loop_body \<lparr>relisting = None, listing = Some [alpha_card, stalled_card]\<rparr>
     (initial_state [alpha_card, stalled_card])
   = Continue
     \<lparr>project_names = [''Alpha Residency'', ''Beta Towers''], project_names_index = 1,
      project_data = [[(''Project Name'', ''Alpha Residency''), (''Rera Regd. No'', ''RP/19/2024/01''),
           (''Promoter Name'', ''Acme Builders''), (''Address of the Promoter'', ''Plot 7, Cuttack''),
           (''GST No.'', ''--'')]], logged = []\<rparr> \<and>
   loop_body \<lparr>relisting = None, listing = Some [alpha_card, stalled_card]\<rparr>
     \<lparr>project_names = [''Alpha Residency'', ''Beta Towers''], project_names_index = 1,
      project_data = [[(''Project Name'', ''Alpha Residency''), (''Rera Regd. No'', ''RP/19/2024/01''),
           (''Promoter Name'', ''Acme Builders''), (''Address of the Promoter'', ''Plot 7, Cuttack''),
           (''GST No.'', ''--'')]], logged = []\<rparr>
   = Abort AutomationError \<and>
   main (Some [alpha_card, stalled_card])
     [\<lparr>relisting = None, listing = Some [alpha_card, stalled_card]\<rparr>,
      \<lparr>relisting = None, listing = Some [alpha_card, stalled_card]\<rparr>]
   = Some (Inl AutomationError)"
  using alpha_then_stalled_iteration stalled_iteration aborted_run
  by (simp add: initial_alpha_stalled main_def)

text \<open>
  C8, amended. When the loop ends without an uncaught error, the output file is written
  if and only if at least one record was accumulated. It has the columns Project Name,
  Rera Regd. No, Promoter Name, Address of the Promoter, GST No. and one row per
  accumulated record, in accumulation order. A run without records logs "No data to
  write to CSV." and is no error. When an uncaught error ends the loop, \<open>main\<close>
  ends with that error and writes no file.
\<close>

theorem C8_output_written_iff_records:
  "(run_loop visits (initial_state all_cards) = Some (Inr st) \<longrightarrow>
    main (Some all_cards) visits =
      Some (Inr (if project_data st = []
                 then (None, logged st @ [''No data to write to CSV.''])
                 else (Some ([''Project Name'', ''Rera Regd. No'', ''Promoter Name'',
                              ''Address of the Promoter'', ''GST No.''],
                             map (map snd) (project_data st)),
                       logged st @ [''Results written to projects_output.csv''])))) \<and>
   (run_loop visits (initial_state all_cards) = Some (Inl e) \<longrightarrow>
    main (Some all_cards) visits = Some (Inl e))"
proof (intro conjI impI)
  assume run: "run_loop visits (initial_state all_cards) = Some (Inr st)"
  then have "reachable st" using run_loop_reachable reachable.start by blast
  then have "\<forall>d\<in>set (project_data st). \<exists>x1 x2 p a x5.
     d = [(''Project Name'', x1), (''Rera Regd. No'', x2), (''Promoter Name'', p),
          (''Address of the Promoter'', a), (''GST No.'', x5)]"
    using reachable_records by blast
  from write_results_shape [OF this] run show "main (Some all_cards) visits =
     Some (Inr (if project_data st = []
                then (None, logged st @ [''No data to write to CSV.''])
                else (Some ([''Project Name'', ''Rera Regd. No'', ''Promoter Name'',
                             ''Address of the Promoter'', ''GST No.''],
                            map (map snd) (project_data st)),
                      logged st @ [''Results written to projects_output.csv''])))"
    by (simp add: main_def)
next
  assume "run_loop visits (initial_state all_cards) = Some (Inl e)"
  then show "main (Some all_cards) visits = Some (Inl e)"
    by (simp add: main_def)
qed

theorem C8_output_written_iff_records_witness:
  "main (Some [alpha_card, beta_card])
     [\<lparr>relisting = None, listing = Some [alpha_card, beta_card]\<rparr>,
      \<lparr>relisting = None, listing = Some [alpha_card, beta_card]\<rparr>,
      \<lparr>relisting = Some [alpha_card, beta_card, gamma_card],
       listing = Some [alpha_card, beta_card, gamma_card]\<rparr>]
   = Some (Inr (Some ([''Project Name'', ''Rera Regd. No'', ''Promoter Name'',
                       ''Address of the Promoter'', ''GST No.''],
                      [[''Alpha Residency'', ''RP/19/2024/01'', ''Acme Builders'',
                        ''Plot 7, Cuttack'', ''--'']]),
                [''Navigation error after clicking View Details for Beta Towers: Timeout 30000ms exceeded.'',
                 ''No more new projects found on the page to process.'',
                 ''Results written to projects_output.csv''])) \<and>
   main (Some [gamma_card])
     [\<lparr>relisting = None, listing = Some [gamma_card]\<rparr>,
      \<lparr>relisting = Some [gamma_card], listing = None\<rparr>]
   = Some (Inr (None,
                [''Skipping project Gamma Heights because either Promoter Name or Address is blank.'',
                 ''No more new projects found on the page to process.'',
                 ''No data to write to CSV.''])) \<and>
   run_loop
     [\<lparr>relisting = None, listing = Some [alpha_card, stalled_card]\<rparr>,
      \<lparr>relisting = None, listing = Some [alpha_card, stalled_card]\<rparr>]
     (initial_state [alpha_card, stalled_card])
   = Some (Inl AutomationError) \<and>
   main (Some [alpha_card, stalled_card])
     [\<lparr>relisting = None, listing = Some [alpha_card, stalled_card]\<rparr>,
      \<lparr>relisting = None, listing = Some [alpha_card, stalled_card]\<rparr>]
   = Some (Inl AutomationError)"
  using C8_output_written_iff_records [of _ "[alpha_card, beta_card]"] scenario_run
    C8_output_written_iff_records [of _ "[gamma_card]"] empty_run
    C8_output_written_iff_records [of _ "[alpha_card, stalled_card]"] aborted_run
  by simp

text \<open>
  C9, as claimed: a field that already shows a stable text other than the placeholder
  resolves to that text after no sleep. The loops of Promoter Name, Address and GST No.
  test more than that: a GST No. of one space, and a Company Name that is empty or is
  the placeholder between spaces, are stable and are not the placeholder, and each costs
  81 sleeps and resolves to "--".
\<close>

theorem C9_unaccepted_stable_text_counterexample:
  "'' '' \<noteq> ''--'' \<and> poll_gst (\<lambda>k. ['' '']) (\<lambda>k. 0) 0 = (''--'', 81) \<and>
   '''' \<noteq> ''--'' \<and> poll_two_sources (\<lambda>k. ['''']) (\<lambda>k. []) (\<lambda>k. 0) 0 = (''--'', 81) \<and>
   '' -- '' \<noteq> ''--'' \<and> poll_two_sources (\<lambda>k. ['' -- '']) (\<lambda>k. []) (\<lambda>k. 0) 0 = (''--'', 81)"
proof -
  have "poll_gst (\<lambda>k. ['' '']) (\<lambda>k. 0) 0 = (''--'', 81)"
    by (rule poll_gst_timeout) (simp_all add: gst_offers_def strip_space elapsed_def)
  moreover have "poll_two_sources (\<lambda>k. ['''']) (\<lambda>k. []) (\<lambda>k. 0) 0 = (''--'', 81)"
    by (rule poll_two_sources_timeout) (simp_all add: offers_def elapsed_def)
  moreover have "poll_two_sources (\<lambda>k. ['' -- '']) (\<lambda>k. []) (\<lambda>k. 0) 0 = (''--'', 81)"
    by (rule poll_two_sources_timeout)
      (simp_all add: offers_def strip_padded_placeholder elapsed_def)
  ultimately show ?thesis by simp
qed

text \<open>
  C9, amended. A field that already shows a stable text which its loop accepts resolves
  to that text after no sleep, whatever the clock. Project Name and RERA Regd. No.
  accept any text other than the placeholder; Promoter Name and Address accept the text
  of the first source that is present with a text that is non-empty and, stripped, not
  the placeholder; GST No. accepts a text that is not empty once stripped.
\<close>

theorem C9_stable_value_needs_no_sleep:
  "((\<forall>i. shown i = Some v) \<and> v \<noteq> ''--'' \<longrightarrow> wait_text shown lag 0 = Inr (v, 0)) \<and>
   (is_visible p \<and> (\<forall>i. text_at p i = Some v) \<and> v \<noteq> ''--'' \<longrightarrow> resolve_text p = Inr v) \<and>
   ((\<forall>k. primary k = els) \<and> offers els
      \<longrightarrow> poll_two_sources primary secondary lag 0 = (hd els, 0)) \<and>
   ((\<forall>k. primary k = els \<and> secondary k = els') \<and> \<not> offers els \<and> offers els'
      \<longrightarrow> poll_two_sources primary secondary lag 0 = (hd els', 0)) \<and>
   ((\<forall>k. gst k = gels) \<and> gst_offers gels \<longrightarrow> poll_gst gst lag 0 = (hd gels, 0))"
proof (intro conjI impI)
  assume "(\<forall>i. shown i = Some v) \<and> v \<noteq> ''--''"
  then show "wait_text shown lag 0 = Inr (v, 0)"
    by (intro wait_text_exit [where t = v]) auto
next
  assume a: "is_visible p \<and> (\<forall>i. text_at p i = Some v) \<and> v \<noteq> ''--''"
  then have "wait_text (text_at p) (lag_at p) 0 = Inr (v, 0)"
    by (intro wait_text_exit [where t = v]) auto
  with a show "resolve_text p = Inr v"
    by (simp add: resolve_text_def)
next
  assume "(\<forall>k. primary k = els) \<and> offers els"
  then show "poll_two_sources primary secondary lag 0 = (hd els, 0)"
    by (subst poll_two_sources.simps) simp
next
  assume "(\<forall>k. primary k = els \<and> secondary k = els') \<and> \<not> offers els \<and> offers els'"
  then show "poll_two_sources primary secondary lag 0 = (hd els', 0)"
    by (subst poll_two_sources.simps) simp
next
  assume "(\<forall>k. gst k = gels) \<and> gst_offers gels"
  then show "poll_gst gst lag 0 = (hd gels, 0)"
    by (subst poll_gst.simps) simp
qed

theorem C9_stable_value_needs_no_sleep_witness:
  "wait_text (\<lambda>i. Some ''Alpha Residency'') (\<lambda>i. 250) 0 = Inr (''Alpha Residency'', 0) \<and>
   resolve_text (steady_text ''Alpha Residency'') = Inr ''Alpha Residency'' \<and>
   poll_two_sources (\<lambda>k. [''Acme Builders'']) (\<lambda>k. []) (\<lambda>k. 250) 0 = (''Acme Builders'', 0) \<and>
   poll_two_sources (\<lambda>k. [''--'']) (\<lambda>k. [''Acme Builders'']) (\<lambda>k. 250) 0 = (''Acme Builders'', 0) \<and>
   poll_gst (\<lambda>k. [''21AABCU9603R1ZM'']) (\<lambda>k. 250) 0 = (''21AABCU9603R1ZM'', 0)"
proof -
  have a: "offers [''Acme Builders'']" by (simp add: offers_def strip_Acme)
  have b: "\<not> offers [''--'']" by (simp add: offers_def strip_placeholder)
  have c: "gst_offers [''21AABCU9603R1ZM'']"
    by (simp add: gst_offers_def strip_def py_isspace_def)
  show ?thesis
    using a b c
      C9_stable_value_needs_no_sleep [where shown = "\<lambda>i. Some ''Alpha Residency''"
        and v = "''Alpha Residency''" and lag = "\<lambda>i. 250"
        and p = "steady_text ''Alpha Residency''" and primary = "\<lambda>k. [''Acme Builders'']"
        and els = "[''Acme Builders'']" and secondary = "\<lambda>k. []" and els' = "[]"
        and gst = "\<lambda>k. [''21AABCU9603R1ZM'']"
        and gels = "[''21AABCU9603R1ZM'']"]
      C9_stable_value_needs_no_sleep [where shown = "\<lambda>i. Some ''Alpha Residency''"
        and v = "''Alpha Residency''" and lag = "\<lambda>i. 250"
        and p = "steady_text ''Alpha Residency''" and primary = "\<lambda>k. [''--'']"
        and els = "[''--'']" and secondary = "\<lambda>k. [''Acme Builders'']"
        and els' = "[''Acme Builders'']" and gst = "\<lambda>k. [''21AABCU9603R1ZM'']"
        and gels = "[''21AABCU9603R1ZM'']"]
    by (simp add: steady_text_def)
qed

text \<open>
  C10, as claimed: the GST No. loop accepts any non-empty displayed text in the first
  cycle that shows it. A text of one space is not empty, and the loop does not accept
  it: it polls to the ceiling and yields "--".
\<close>

theorem C10_whitespace_gst_counterexample:
  "'' '' \<noteq> [] \<and>
   poll_gst (\<lambda>k. ['' '']) (\<lambda>k. 0) 0 = (''--'', 81) \<and>
   poll_gst (\<lambda>k. ['' '']) (\<lambda>k. 0) 0 \<noteq> ('' '', 0)"
proof -
  have "poll_gst (\<lambda>k. ['' '']) (\<lambda>k. 0) 0 = (''--'', 81)"
    by (rule poll_gst_timeout) (simp_all add: gst_offers_def strip_space elapsed_def)
  then show ?thesis by simp
qed

text \<open>
  C10, amended. The GST No. loop accepts, in the first cycle that shows it, any text
  that is not empty once stripped, the placeholder "--" included, and returns it
  unstripped. If the element is absent in every cycle, the loop polls until more than
  40 seconds have passed and then yields "--".
\<close>

theorem C10_gst_accepts_nonblank_text:
  "((\<forall>i<k. \<not> gst_offers (gst i) \<and> elapsed lag i \<le> 40000) \<and> gst k = t # ts \<and> strip t \<noteq> []
      \<longrightarrow> poll_gst gst lag 0 = (t, k)) \<and>
   ((\<forall>i\<le>k. gst i = []) \<and> (\<forall>i<k. elapsed lag i \<le> 40000) \<and> 40000 < elapsed lag k
      \<longrightarrow> poll_gst gst lag 0 = (''--'', k))"
proof (intro conjI impI)
  assume a: "(\<forall>i<k. \<not> gst_offers (gst i) \<and> elapsed lag i \<le> 40000) \<and> gst k = t # ts \<and> strip t \<noteq> []"
  then have "gst_offers (gst k)"
    using strip_nonempty by (simp add: gst_offers_def)
  with a show "poll_gst gst lag 0 = (t, k)"
    using poll_gst_accept [of k gst lag] by simp
next
  assume a: "(\<forall>i\<le>k. gst i = []) \<and> (\<forall>i<k. elapsed lag i \<le> 40000) \<and> 40000 < elapsed lag k"
  then show "poll_gst gst lag 0 = (''--'', k)"
    by (intro poll_gst_timeout) (auto simp: gst_offers_def)
qed

theorem C10_gst_accepts_nonblank_text_witness:
  "poll_gst (\<lambda>k. [''--'']) (\<lambda>k. 0) 0 = (''--'', 0) \<and>
   poll_gst (\<lambda>k. if k < 2 then ['' ''] else [''21AABCU9603R1ZM'']) (\<lambda>k. 0) 0 = (''21AABCU9603R1ZM'', 2) \<and>
   poll_gst (\<lambda>k. []) (\<lambda>k. 0) 0 = (''--'', 81)"
proof -
  have a: "(\<forall>i<0::nat. \<not> gst_offers ([''--'']) \<and> elapsed (\<lambda>k. 0) i \<le> 40000) \<and>
      [''--''] = ''--'' # [] \<and> strip ''--'' \<noteq> []"
    by (simp add: strip_placeholder)
  have b: "(\<forall>i<2::nat. \<not> gst_offers (if i < 2 then ['' ''] else [''21AABCU9603R1ZM'']) \<and>
        elapsed (\<lambda>k. 0) i \<le> 40000) \<and>
      (if (2::nat) < 2 then ['' ''] else [''21AABCU9603R1ZM'']) = ''21AABCU9603R1ZM'' # [] \<and>
      strip ''21AABCU9603R1ZM'' \<noteq> []"
    by (simp add: gst_offers_def elapsed_def strip_def py_isspace_def)
  have c: "(\<forall>i\<le>81::nat. ([]::string list) = []) \<and> (\<forall>i<81. elapsed (\<lambda>k. 0) i \<le> 40000) \<and>
      40000 < elapsed (\<lambda>k. 0) 81"
    by (simp add: elapsed_def)
  show ?thesis
    using a b c
      C10_gst_accepts_nonblank_text [of 0 "\<lambda>k. [''--'']" "\<lambda>k. 0" "''--''" "[]"]
      C10_gst_accepts_nonblank_text [of 2 "\<lambda>k. if k < 2 then ['' ''] else [''21AABCU9603R1ZM'']"
        "\<lambda>k. 0" "''21AABCU9603R1ZM''" "[]"]
      C10_gst_accepts_nonblank_text [of 81 "\<lambda>k. []" "\<lambda>k. 0"]
    by simp
qed

end
